theory Spec2Isabelle
  imports Main "HOL-Library.AList"
begin

section \<open>Strings and query lookups\<close>

text \<open>
  Python \<^verbatim>\<open>str\<close> values are modelled as \<^typ>\<open>string\<close>, one \<^typ>\<open>char\<close> per code
  point below 256. \<^verbatim>\<open>str.strip()\<close> removes leading and trailing whitespace; in that
  range the whitespace code points are 9 to 13, 28 to 31, 32, 133 and 160.
\<close>

definition is_space :: "char \<Rightarrow> bool" where
  "is_space c = (c \<in> set [CHR 0x09, CHR 0x0A, CHR 0x0B, CHR 0x0C, CHR 0x0D,
     CHR 0x1C, CHR 0x1D, CHR 0x1E, CHR 0x1F, CHR 0x20, CHR 0x85, CHR 0xA0])"

definition strip :: "string \<Rightarrow> string" where
  "strip s = rev (dropWhile is_space (rev (dropWhile is_space s)))"

text \<open>
  \<^verbatim>\<open>color__iexact\<close>: the configured database is SQLite (settings.py), where the
  lookup is a \<^verbatim>\<open>LIKE\<close> without wildcards, that is equality up to the case of the
  ASCII letters.
\<close>

definition ascii_lower :: "char \<Rightarrow> char" where
  "ascii_lower c =
     (case map_of (zip ''ABCDEFGHIJKLMNOPQRSTUVWXYZ'' ''abcdefghijklmnopqrstuvwxyz'') c of
        Some l \<Rightarrow> l
      | None \<Rightarrow> c)"

definition iexact :: "string \<Rightarrow> string \<Rightarrow> bool" where
  "iexact a b = (map ascii_lower a = map ascii_lower b)"

text \<open>\<^verbatim>\<open>dict.get(key, default)\<close> on a \<^verbatim>\<open>QueryDict\<close> or a plain dict.\<close>

definition get_or :: "('k \<rightharpoonup> 'v) \<Rightarrow> 'k \<Rightarrow> 'v \<Rightarrow> 'v" where
  "get_or m k dflt = (case m k of Some v \<Rightarrow> v | None \<Rightarrow> dflt)"

section \<open>The data model (store/models.py)\<close>

text \<open>
  Each model class is a record of the fields the modelled operations read or write, and
  each table is the list of its rows in primary-key order, so that \<^verbatim>\<open>.first()\<close> on
  an unordered queryset is the first matching row. Foreign keys hold the primary key of
  the row they point to. \<^verbatim>\<open>DecimalField\<close> prices are counted in centavos.
\<close>

record Producto =
  prod_id :: nat
  precio :: int

record TalleProducto =
  tp_id :: nat
  tp_producto :: nat
  tp_talle :: string

record ColorStock =
  cs_id :: nat
  cs_talle_producto :: nat
  cs_color :: string
  cs_stock :: int

record Pedido =
  ped_id :: nat
  buyer_name :: string
  buyer_dni :: string
  localidad :: string
  estado :: string
  tracking_number :: "string option"
  fecha :: nat

record ItemPedido =
  it_pedido :: nat
  it_producto :: nat
  it_talle :: string
  it_color :: string
  it_cantidad :: int
  precio_unitario :: int

text \<open>
  The action text of an \<^verbatim>\<open>OrderLog\<close> row is one of three templates of the source;
  the constructor keeps the template and the values formatted into it:
  \<^verbatim>\<open>f"Estado cambiado: {a} -> {b}"\<close>, \<^verbatim>\<open>f"Tracking actualizado: {a} -> {b}"\<close> and
  \<^verbatim>\<open>"Stock descontado por estado 'realizado'"\<close>.
\<close>

datatype log_text =
    EstadoCambiado string string
  | TrackingActualizado "string option" "string option"
  | StockDescontado

record OrderLog =
  log_pedido :: nat
  log_action :: log_text
  log_note :: string

record db =
  productos :: "Producto list"
  talles :: "TalleProducto list"
  colores :: "ColorStock list"
  pedidos :: "Pedido list"
  items :: "ItemPedido list"
  logs :: "OrderLog list"


definition is_stock_log :: "OrderLog \<Rightarrow> bool" where
  "is_stock_log l = (log_action l = StockDescontado)"

subsection \<open>Queries\<close>

text \<open>
  \<^verbatim>\<open>TalleProducto.objects.get(producto=..., talle=...)\<close>: \<open>None\<close> is
  \<^verbatim>\<open>DoesNotExist\<close>. The table is \<^verbatim>\<open>unique_together (producto, talle)\<close>, so at most
  one row matches and \<^verbatim>\<open>get\<close> never sees two.
\<close>

definition get_talle :: "db \<Rightarrow> nat \<Rightarrow> string \<Rightarrow> TalleProducto option" where
  "get_talle d pid t = find (\<lambda>tp. tp_producto tp = pid \<and> tp_talle tp = t) (talles d)"

text \<open>\<^verbatim>\<open>ColorStock.objects.filter(talle_producto=tp, color__iexact=color).first()\<close>\<close>

definition first_color :: "db \<Rightarrow> TalleProducto \<Rightarrow> string \<Rightarrow> ColorStock option" where
  "first_color d tp c =
     find (\<lambda>cs. cs_talle_producto cs = tp_id tp \<and> iexact (cs_color cs) c) (colores d)"

text \<open>\<^verbatim>\<open>get_object_or_404(Pedido, pk=pk)\<close>: \<open>None\<close> is \<^verbatim>\<open>Http404\<close>.\<close>

definition get_pedido :: "db \<Rightarrow> nat \<Rightarrow> Pedido option" where
  "get_pedido d pk = find (\<lambda>p. ped_id p = pk) (pedidos d)"

definition get_producto :: "db \<Rightarrow> nat \<Rightarrow> Producto option" where
  "get_producto d pk = find (\<lambda>p. prod_id p = pk) (productos d)"

text \<open>\<^verbatim>\<open>pedido.items.all()\<close>\<close>

definition pedido_items :: "db \<Rightarrow> nat \<Rightarrow> ItemPedido list" where
  "pedido_items d pk = filter (\<lambda>it. it_pedido it = pk) (items d)"

subsection \<open>Writes\<close>

text \<open>\<^verbatim>\<open>cs.save(update_fields=['stock'])\<close>: an UPDATE of the row with the primary key of \<open>cs\<close>.\<close>

definition save_stock :: "ColorStock \<Rightarrow> db \<Rightarrow> db" where
  "save_stock cs d =
     d\<lparr>colores := map (\<lambda>r. if cs_id r = cs_id cs then r\<lparr>cs_stock := cs_stock cs\<rparr> else r)
        (colores d)\<rparr>"

text \<open>\<^verbatim>\<open>pedido.save(update_fields=["estado", "tracking_number"])\<close>\<close>

definition save_pedido :: "Pedido \<Rightarrow> db \<Rightarrow> db" where
  "save_pedido p d =
     d\<lparr>pedidos := map (\<lambda>r. if ped_id r = ped_id p
                               then r\<lparr>estado := estado p, tracking_number := tracking_number p\<rparr>
                               else r) (pedidos d)\<rparr>"

text \<open>\<^verbatim>\<open>Pedido.add_log\<close>: \<^verbatim>\<open>OrderLog.objects.create(pedido=self, action=action, note="")\<close>\<close>

definition add_log :: "nat \<Rightarrow> log_text \<Rightarrow> db \<Rightarrow> db" where
  "add_log pk a d = d\<lparr>logs := logs d @ [\<lparr>log_pedido = pk, log_action = a, log_note = []\<rparr>]\<rparr>"

subsection \<open>\<^verbatim>\<open>Pedido.descontar_stock_si_realizado\<close>\<close>

text \<open>
  The body of the loop for one \<^verbatim>\<open>ItemPedido\<close>: a line whose (producto, talle) has no
  \<^verbatim>\<open>TalleProducto\<close> row (\<^verbatim>\<open>except TalleProducto.DoesNotExist: continue\<close>) or whose color
  matches no \<^verbatim>\<open>ColorStock\<close> row (\<^verbatim>\<open>if cs:\<close>) is passed over.
\<close>

definition descontar_item :: "ItemPedido \<Rightarrow> db \<Rightarrow> db" where
  "descontar_item it d =
     (case get_talle d (it_producto it) (it_talle it) of
        None \<Rightarrow> d
      | Some tp \<Rightarrow>
          (case first_color d tp (it_color it) of
             None \<Rightarrow> d
           | Some cs \<Rightarrow>
               (let nuevo = cs_stock cs - it_cantidad it
                in save_stock (cs\<lparr>cs_stock := (if nuevo > 0 then nuevo else 0)\<rparr>) d)))"

definition descontar_stock_si_realizado :: "nat \<Rightarrow> db \<Rightarrow> db" where
  "descontar_stock_si_realizado pk d = fold descontar_item (pedido_items d pk) d"

text \<open>
  The stock row an order line is counted against: the lookup of the loop body, which
  reads the \<^verbatim>\<open>TalleProducto\<close> and \<^verbatim>\<open>ColorStock\<close> tables only.
\<close>

definition matching_stock :: "db \<Rightarrow> ItemPedido \<Rightarrow> ColorStock option" where
  "matching_stock d it =
     (case get_talle d (it_producto it) (it_talle it) of
        None \<Rightarrow> None
      | Some tp \<Rightarrow> first_color d tp (it_color it))"

definition line_hits :: "db \<Rightarrow> ColorStock \<Rightarrow> ItemPedido \<Rightarrow> bool" where
  "line_hits d r it = (map_option cs_id (matching_stock d it) = Some (cs_id r))"

text \<open>\<^verbatim>\<open>nuevo = cs.stock - it.cantidad; cs.stock = nuevo if nuevo > 0 else 0\<close>\<close>

definition floor_sub :: "int \<Rightarrow> int \<Rightarrow> int" where
  "floor_sub s q = (if s - q > 0 then s - q else 0)"

section \<open>The order panel (store/views.py)\<close>

datatype http_method = GET | POST

record request =
  req_method :: http_method
  req_GET :: "string \<rightharpoonup> string"
  req_POST :: "string \<rightharpoonup> string"

text \<open>
  The flash messages of \<^verbatim>\<open>django.contrib.messages\<close>: the level and which text of the
  source it is, with the numbers formatted into it.
\<close>

datatype level = LvError | LvWarning | LvInfo | LvSuccess

datatype message =
    CantidadInvalida
  | SeleccionarTalleColor
  | SinStock
  | StockMaximo int
  | AgregadosLimitado int int
  | Agregados int
  | ProductoEliminado
  | NoEstabaEnCarrito
  | TrackingObligatorio
  | PedidoActualizado

datatype route = ProductDetail nat | CartPage | PanelOrderDetail nat

datatype py_exception = ValueError | NameError

text \<open>
  What a view answers: \<^verbatim>\<open>Http404\<close>, a redirect to a named route with the messages
  it flashed, a rendered template with its context, or an exception that leaves the
  view uncaught. Reversing the route name and rendering the template are Django's and
  are not modelled.
\<close>

datatype 'ctx response =
    Http404
  | Redirect route "(level \<times> message) list"
  | Render 'ctx
  | Raised py_exception

text \<open>
  The database calls of the POST branch of \<^verbatim>\<open>admin_order_detail\<close> once the
  validation has passed, in source order: the save of the two fields, the log of a
  changed state, the log of a changed tracking number, and on a move into
  \<^verbatim>\<open>'realizado'\<close> the stock decrement and its log.
\<close>

definition order_writes :: "Pedido \<Rightarrow> string \<Rightarrow> string \<Rightarrow> (db \<Rightarrow> db) list" where
  "order_writes pedido nuevo_estado nuevo_tracking =
     (let estado_anterior = estado pedido;
          tracking_anterior = tracking_number pedido;
          pedido' = pedido\<lparr>estado := nuevo_estado,
                      tracking_number :=
                        (if nuevo_tracking \<noteq> [] then Some nuevo_tracking else None)\<rparr>
      in [save_pedido pedido']
         @ (if estado_anterior \<noteq> estado pedido'
            then [add_log (ped_id pedido) (EstadoCambiado estado_anterior (estado pedido'))]
            else [])
         @ (if tracking_anterior \<noteq> tracking_number pedido'
            then [add_log (ped_id pedido)
                    (TrackingActualizado tracking_anterior (tracking_number pedido'))]
            else [])
         @ (if estado_anterior \<noteq> ''realizado'' \<and> estado pedido' = ''realizado''
            then [descontar_stock_si_realizado (ped_id pedido),
                  add_log (ped_id pedido) StockDescontado]
            else []))"

fun run_writes :: "(db \<Rightarrow> db) list \<Rightarrow> db \<Rightarrow> db" where
  "run_writes [] d = d"
| "run_writes (w # ws) d = run_writes ws (w d)"

text \<open>\<^verbatim>\<open>pedido.logs.all()\<close>, newest first (\<^verbatim>\<open>ordering = ['-timestamp']\<close>).\<close>

definition pedido_logs :: "db \<Rightarrow> nat \<Rightarrow> OrderLog list" where
  "pedido_logs d pk = rev (filter (\<lambda>l. log_pedido l = pk) (logs d))"

type_synonym panel_ctx = "Pedido \<times> ItemPedido list \<times> OrderLog list"

definition admin_order_detail :: "request \<Rightarrow> nat \<Rightarrow> db \<Rightarrow> panel_ctx response \<times> db" where
  "admin_order_detail request pk d =
     (case get_pedido d pk of
        None \<Rightarrow> (Http404, d)
      | Some pedido \<Rightarrow>
          if req_method request = POST then
            (let nuevo_estado = get_or (req_POST request) ''estado'' (estado pedido);
                 nuevo_tracking = strip (get_or (req_POST request) ''tracking_number'' [])
             in if nuevo_estado = ''realizado'' \<and> nuevo_tracking = []
                then (Redirect (PanelOrderDetail (ped_id pedido)) [(LvError, TrackingObligatorio)], d)
                else (Redirect (PanelOrderDetail (ped_id pedido)) [(LvSuccess, PedidoActualizado)],
                      run_writes (order_writes pedido nuevo_estado nuevo_tracking) d))
          else (Render (pedido, pedido_items d pk, pedido_logs d pk), d))"


section \<open>The Django admin of orders (store/admin.py)\<close>

datatype admin_error = ValidationError | DoesNotExist

text \<open>
  \<^verbatim>\<open>PedidoForm.clean\<close> on the cleaned data, held as the order the form builds from
  it. \<^verbatim>\<open>not tracking\<close> is true of \<^verbatim>\<open>None\<close> and of the empty string.
\<close>

definition PedidoForm_clean :: "Pedido \<Rightarrow> admin_error + Pedido" where
  "PedidoForm_clean cleaned =
     (if estado cleaned = ''realizado''
         \<and> (tracking_number cleaned = None \<or> tracking_number cleaned = Some [])
      then Inl ValidationError
      else Inr cleaned)"

text \<open>\<^verbatim>\<open>Model.save()\<close> of an existing row: every field is written.\<close>

definition save_obj :: "Pedido \<Rightarrow> db \<Rightarrow> db" where
  "save_obj obj d = d\<lparr>pedidos := map (\<lambda>r. if ped_id r = ped_id obj then obj else r) (pedidos d)\<rparr>"

text \<open>\<^verbatim>\<open>Model.save()\<close> of a new object: the row is inserted under a fresh primary key.\<close>

definition insert_obj :: "Pedido \<Rightarrow> db \<Rightarrow> Pedido \<times> db" where
  "insert_obj obj d =
     (let obj' = obj\<lparr>ped_id := Suc (fold max (map ped_id (pedidos d)) 0)\<rparr>
      in (obj', d\<lparr>pedidos := pedidos d @ [obj']\<rparr>))"

definition save_model :: "Pedido \<Rightarrow> bool \<Rightarrow> db \<Rightarrow> admin_error + db" where
  "save_model obj change d =
     (if change then
        (case get_pedido d (ped_id obj) of
           None \<Rightarrow> Inl DoesNotExist
         | Some prev \<Rightarrow>
             (let estado_anterior = estado prev;
                  tracking_anterior = tracking_number prev;
                  d1 = save_obj obj d;
                  d2 = (if estado_anterior \<noteq> estado obj
                        then add_log (ped_id obj) (EstadoCambiado estado_anterior (estado obj)) d1
                        else d1);
                  d3 = (if estado_anterior \<noteq> ''realizado'' \<and> estado obj = ''realizado''
                        then add_log (ped_id obj) StockDescontado
                               (descontar_stock_si_realizado (ped_id obj) d2)
                        else d2);
                  d4 = (if tracking_anterior \<noteq> tracking_number obj
                        then add_log (ped_id obj)
                               (TrackingActualizado tracking_anterior (tracking_number obj)) d3
                        else d3)
              in Inr d4))
      else
        (let (obj', d1) = insert_obj obj d;
             d3 = (if estado obj' = ''realizado''
                   then add_log (ped_id obj') StockDescontado
                          (descontar_stock_si_realizado (ped_id obj') d1)
                   else d1)
         in Inr d3))"

text \<open>
  The admin's change form of the order \<open>pk\<close>, as \<^verbatim>\<open>ModelAdmin\<close> runs it: the form is
  bound to that order, \<^verbatim>\<open>save_model\<close> is called only when \<^verbatim>\<open>clean\<close> has not raised,
  and an invalid form is shown again with nothing saved.
\<close>

definition admin_change :: "nat \<Rightarrow> Pedido \<Rightarrow> db \<Rightarrow> admin_error + db" where
  "admin_change pk cleaned d =
     (case PedidoForm_clean (cleaned\<lparr>ped_id := pk\<rparr>) of
        Inl e \<Rightarrow> Inl e
      | Inr obj \<Rightarrow> save_model obj True d)"

subsection \<open>Sequences of status updates of one order\<close>

datatype update_op = PanelRequest request | AdminChange Pedido

definition apply_op :: "nat \<Rightarrow> update_op \<Rightarrow> db \<Rightarrow> db" where
  "apply_op pk op d =
     (case op of
        PanelRequest request \<Rightarrow> snd (admin_order_detail request pk d)
      | AdminChange cleaned \<Rightarrow> (case admin_change pk cleaned d of Inl e \<Rightarrow> d | Inr d' \<Rightarrow> d'))"

fun run_ops :: "nat \<Rightarrow> update_op list \<Rightarrow> db \<Rightarrow> db" where
  "run_ops pk [] d = d"
| "run_ops pk (op # ops) d = run_ops pk ops (apply_op pk op d)"

definition estado_of :: "db \<Rightarrow> nat \<Rightarrow> string option" where
  "estado_of d pk = map_option estado (get_pedido d pk)"

text \<open>No step of the sequence takes the order out of \<^verbatim>\<open>'realizado'\<close>.\<close>

fun stays_realizado :: "nat \<Rightarrow> update_op list \<Rightarrow> db \<Rightarrow> bool" where
  "stays_realizado pk [] d = True"
| "stays_realizado pk (op # ops) d =
     ((estado_of d pk = Some ''realizado''
         \<longrightarrow> estado_of (apply_op pk op d) pk = Some ''realizado'')
      \<and> stays_realizado pk ops (apply_op pk op d))"

text \<open>The state an operation submits for an order that is already \<^verbatim>\<open>'realizado'\<close>.\<close>

definition submits_realizado :: "update_op \<Rightarrow> bool" where
  "submits_realizado op =
     (case op of
        PanelRequest request \<Rightarrow> get_or (req_POST request) ''estado'' ''realizado'' = ''realizado''
      | AdminChange cleaned \<Rightarrow> estado cleaned = ''realizado'')"

section \<open>The order list of the panel (store/views.py)\<close>

text \<open>
  The names bound at module level in views.py: its imports, \<^verbatim>\<open>mp\<close> and its
  functions. A name the body of a view reads that is neither local, nor here, nor a
  builtin raises \<^verbatim>\<open>NameError\<close> when the line runs.
\<close>

definition views_globals :: "string list" where
  "views_globals =
     [''Decimal'', ''settings'', ''messages'', ''render'', ''get_object_or_404'', ''redirect'',
      ''require_http_methods'', ''mercadopago'', ''Categoria'', ''Producto'', ''Pedido'',
      ''ItemPedido'', ''TalleProducto'', ''ColorStock'', ''AndreaniClient'', ''ShippingError'',
      ''mp'', ''home'', ''categories'', ''product_list'', ''product_detail'', ''_variant_stock'',
      ''add_to_cart'', ''cart'', ''remove_from_cart'', ''increment_cart_item'',
      ''decrement_cart_item'', ''checkout'', ''orders'', ''order_detail'', ''admin_orders'',
      ''admin_order_detail'']"

text \<open>
  \<^verbatim>\<open>field__icontains=q\<close> on SQLite: \<^verbatim>\<open>LIKE '%q%'\<close>, a substring test up to the case
  of the ASCII letters; a \<^verbatim>\<open>NULL\<close> field matches nothing.
\<close>

fun contains :: "string \<Rightarrow> string \<Rightarrow> bool" where
  "contains [] n = (n = [])"
| "contains (c # cs) n = (take (length n) (c # cs) = n \<or> contains cs n)"

definition icontains :: "string \<Rightarrow> string \<Rightarrow> bool" where
  "icontains field q = contains (map ascii_lower field) (map ascii_lower q)"

definition matches_q :: "string \<Rightarrow> Pedido \<Rightarrow> bool" where
  "matches_q q p =
     (icontains (buyer_name p) q
      \<or> icontains (buyer_dni p) q
      \<or> (case tracking_number p of None \<Rightarrow> False | Some t \<Rightarrow> icontains t q)
      \<or> icontains (localidad p) q)"

type_synonym orders_ctx = "Pedido list \<times> string \<times> string"

definition admin_orders :: "request \<Rightarrow> db \<Rightarrow> orders_ctx response" where
  "admin_orders request d =
     (let estado' = strip (get_or (req_GET request) ''estado'' []);
          q = strip (get_or (req_GET request) ''q'' []);
          pedidos0 = rev (sort_key fecha (pedidos d));
          pedidos1 = (if estado' \<in> set [''pendiente'', ''realizado'', ''rechazado'']
                      then filter (\<lambda>p. estado p = estado') pedidos0
                      else pedidos0)
      in if q \<noteq> []
         then (if ''Q'' \<in> set views_globals
               then Render (filter (matches_q q) pedidos1, estado', q)
               else Raised NameError)
         else Render (pedidos1, estado', q))"

section \<open>The session cart (store/views.py)\<close>

text \<open>
  \<^verbatim>\<open>request.session['cart']\<close> is a dict from the key \<^verbatim>\<open>f"{pk}:{talle}:{color}"\<close> to a
  quantity; a Python dict keeps insertion order, so it is an association list with
  \<^const>\<open>AList.update\<close> for \<^verbatim>\<open>cart[key] = v\<close> and \<^const>\<open>AList.delete\<close> for
  \<^verbatim>\<open>del cart[key]\<close>. A session without the entry reads as the empty dict.
\<close>

type_synonym cart = "(string \<times> int) list"

text \<open>\<^verbatim>\<open>cart.get(key, 0)\<close>\<close>

definition cart_get :: "cart \<Rightarrow> string \<Rightarrow> int" where
  "cart_get c key = (case map_of c key of Some n \<Rightarrow> n | None \<Rightarrow> 0)"




text \<open>
  \<^verbatim>\<open>_variant_stock(pid, talle, color)\<close>, with \<^verbatim>\<open>int(pid)\<close> already taken: 0 when the
  (producto, talle) row or the color row is missing.
\<close>

definition variant_stock :: "db \<Rightarrow> nat \<Rightarrow> string \<Rightarrow> string \<Rightarrow> int" where
  "variant_stock d pid t c =
     (case get_talle d pid t of
        None \<Rightarrow> 0
      | Some tp \<Rightarrow> (case first_color d tp c of None \<Rightarrow> 0 | Some cs \<Rightarrow> cs_stock cs))"




text \<open>\<^verbatim>\<open>key.split(':')\<close>\<close>

fun split_colon :: "string \<Rightarrow> string list" where
  "split_colon [] = [[]]"
| "split_colon (c # cs) =
     (if c = CHR '':'' then [] # split_colon cs
      else (case split_colon cs of p # ps \<Rightarrow> (c # p) # ps | [] \<Rightarrow> [[c]]))"

text \<open>
  \<^verbatim>\<open>int(pid)\<close> of the first part of a key. Keys are written by \<^verbatim>\<open>add_to_cart\<close> only,
  with \<^verbatim>\<open>str(pk)\<close> of the integer of the URL in front, so the part is a run of decimal
  digits; on any other text the model raises \<^verbatim>\<open>ValueError\<close>.
\<close>

definition digit_value :: "char \<Rightarrow> nat option" where
  "digit_value c = map_of (zip ''0123456789'' [0, 1, 2, 3, 4, 5, 6, 7, 8, 9]) c"

fun parse_digits :: "nat \<Rightarrow> string \<Rightarrow> nat option" where
  "parse_digits acc [] = Some acc"
| "parse_digits acc (c # cs) =
     (case digit_value c of None \<Rightarrow> None | Some v \<Rightarrow> parse_digits (10 * acc + v) cs)"

definition parse_nat :: "string \<Rightarrow> nat option" where
  "parse_nat s = (if s = [] then None else parse_digits 0 s)"

record cart_line =
  line_key :: string
  line_producto :: Producto
  line_talle :: string
  line_color :: string
  line_cantidad :: int
  line_subtotal :: int
  line_max :: int

text \<open>
  The loop of \<^verbatim>\<open>cart(request)\<close> over \<^verbatim>\<open>list(raw.items())\<close>: the state is the dict
  \<open>raw\<close>, the lines gathered, the total and \<^verbatim>\<open>session_changed\<close>.
\<close>

fun cart_loop ::
  "db \<Rightarrow> (string \<times> int) list \<Rightarrow> cart \<times> cart_line list \<times> int \<times> bool
     \<Rightarrow> unit response + cart \<times> cart_line list \<times> int \<times> bool"
where
  "cart_loop d [] st = Inr st"
| "cart_loop d ((key, qty) # rest) (raw, lines, total', session_changed) =
     (case split_colon key of
        [pid, talle, color] \<Rightarrow>
          (case parse_nat pid of
             None \<Rightarrow> Inl (Raised ValueError)
           | Some n \<Rightarrow>
               (case get_producto d n of
                  None \<Rightarrow> Inl Http404
                | Some producto \<Rightarrow>
                    (let max_stock = variant_stock d n talle color
                     in if max_stock \<le> 0
                        then cart_loop d rest (AList.delete key raw, lines, total', True)
                        else
                          (let capped = qty > max_stock;
                               qty' = (if capped then max_stock else qty);
                               raw' = (if capped then AList.update key qty' raw else raw);
                               subtotal = precio producto * qty'
                           in cart_loop d rest
                                (raw',
                                 lines @ [\<lparr>line_key = key, line_producto = producto,
                                            line_talle = talle, line_color = color,
                                            line_cantidad = qty', line_subtotal = subtotal,
                                            line_max = max_stock\<rparr>],
                                 total' + subtotal,
                                 session_changed \<or> capped)))))
      | _ \<Rightarrow> Inl (Raised ValueError))"

type_synonym cart_ctx = "cart_line list \<times> int \<times> int"

text \<open>
  \<^verbatim>\<open>cart(request)\<close>: the answer, the session cart afterwards and whether the view
  wrote it back (\<^verbatim>\<open>session_changed\<close>).
\<close>

definition cart_view :: "cart \<Rightarrow> db \<Rightarrow> cart_ctx response \<times> cart \<times> bool" where
  "cart_view raw d =
     (case cart_loop d raw (raw, [], 0, False) of
        Inl r \<Rightarrow> (case r of Http404 \<Rightarrow> (Http404, raw, False) | _ \<Rightarrow> (Raised ValueError, raw, False))
      | Inr (raw', lines, total', session_changed) \<Rightarrow>
          (Render (lines, total', sum_list (map line_cantidad lines)), raw', session_changed))"

text \<open>
  Step 1 of \<^verbatim>\<open>checkout(request)\<close>, run for GET and POST alike: the items and the
  subtotal, with the quantities as the session holds them.
\<close>

record checkout_item =
  ci_producto :: Producto
  ci_talle :: string
  ci_color :: string
  ci_qty :: int
  ci_subtotal :: int

fun checkout_items ::
  "db \<Rightarrow> (string \<times> int) list \<Rightarrow> checkout_item list \<times> int
     \<Rightarrow> unit response + checkout_item list \<times> int"
where
  "checkout_items d [] st = Inr st"
| "checkout_items d ((key, qty) # rest) (its, subtotal) =
     (case split_colon key of
        [pid, talle, color] \<Rightarrow>
          (case parse_nat pid of
             None \<Rightarrow> Inl (Raised ValueError)
           | Some n \<Rightarrow>
               (case get_producto d n of
                  None \<Rightarrow> Inl Http404
                | Some producto \<Rightarrow>
                    (let item_sub = precio producto * qty
                     in checkout_items d rest
                          (its @ [\<lparr>ci_producto = producto, ci_talle = talle, ci_color = color,
                                    ci_qty = qty, ci_subtotal = item_sub\<rparr>],
                           subtotal + item_sub))))
      | _ \<Rightarrow> Inl (Raised ValueError))"

text \<open>
  The \<^verbatim>\<open>ItemPedido\<close> rows the POST branch of checkout creates for the new order
  \<open>pedido_id\<close>, one per item.
\<close>

definition checkout_lines :: "nat \<Rightarrow> checkout_item list \<Rightarrow> ItemPedido list" where
  "checkout_lines pedido_id its =
     map (\<lambda>it. \<lparr>it_pedido = pedido_id, it_producto = prod_id (ci_producto it),
                 it_talle = ci_talle it, it_color = ci_color it, it_cantidad = ci_qty it,
                 precio_unitario = precio (ci_producto it)\<rparr>) its"

section \<open>The cart service (store/cart.py)\<close>




section \<open>The shipping client (store/services/shipping.py)\<close>

text \<open>
  What the HTTP call of \<^verbatim>\<open>calculate_shipping\<close> meets. \<^verbatim>\<open>session.post\<close> either raises
  a \<^verbatim>\<open>requests.RequestException\<close> (no connection, timeout) or gives a response with a
  status code and a body. The body is not JSON, or JSON that is no object, or an
  object whose \<^verbatim>\<open>"cost"\<close> is missing or \<^verbatim>\<open>null\<close>, a value that \<^verbatim>\<open>Decimal(str(cost))\<close>
  reads (in centavos) or one it rejects.
\<close>

datatype cost_field = CostMissing | CostDecimal int | CostUnreadable

datatype body = NotJson | JsonNoObject | JsonObject cost_field

datatype http_outcome = PostRaised | Response nat body

datatype shipping_exception =
    ShippingError
  | JSONDecodeError
  | AttributeError
  | InvalidOperation

datatype 'a outcome = Returned 'a | Raise shipping_exception

text \<open>
  \<^verbatim>\<open>AndreaniClient.calculate_shipping\<close>. \<^verbatim>\<open>raise_for_status\<close> raises \<^verbatim>\<open>HTTPError\<close>, a
  \<^verbatim>\<open>RequestException\<close>, on a status from 400 to 599. Whether the error of
  \<^verbatim>\<open>resp.json()\<close> is a \<^verbatim>\<open>RequestException\<close> depends on the installed version of
  requests and is the parameter \<open>json_error_is_request_exception\<close>. The handler
  \<^verbatim>\<open>except requests.RequestException\<close> logs the error; its \<^verbatim>\<open>raise ShippingError\<close> is
  commented out, so the function ends there and returns \<^verbatim>\<open>None\<close>.
\<close>

definition calculate_shipping :: "bool \<Rightarrow> http_outcome \<Rightarrow> int option outcome" where
  "calculate_shipping json_error_is_request_exception http =
     (case http of
        PostRaised \<Rightarrow> Returned None
      | Response status b \<Rightarrow>
          if 400 \<le> status \<and> status < 600 then Returned None
          else
            (case b of
               NotJson \<Rightarrow>
                 (if json_error_is_request_exception then Returned None
                  else Raise JSONDecodeError)
             | JsonNoObject \<Rightarrow> Raise AttributeError
             | JsonObject cost \<Rightarrow>
                 (case cost of
                    CostMissing \<Rightarrow> Raise ShippingError
                  | CostDecimal c \<Rightarrow> Returned (Some c)
                  | CostUnreadable \<Rightarrow> Raise InvalidOperation)))"

section \<open>Definitions for the statements\<close>

text \<open>
  The order as the POST branch of \<^verbatim>\<open>admin_order_detail\<close> saves it, and the
  \<^verbatim>\<open>OrderLog\<close> rows the branch appends, read off \<^const>\<open>order_writes\<close>.
\<close>

definition new_pedido :: "Pedido \<Rightarrow> string \<Rightarrow> string \<Rightarrow> Pedido" where
  "new_pedido p ne nt = p\<lparr>estado := ne, tracking_number := (if nt \<noteq> [] then Some nt else None)\<rparr>"

definition new_logs :: "Pedido \<Rightarrow> string \<Rightarrow> string \<Rightarrow> OrderLog list" where
  "new_logs p ne nt =
     (if estado p \<noteq> ne
      then [\<lparr>log_pedido = ped_id p, log_action = EstadoCambiado (estado p) ne, log_note = []\<rparr>]
      else [])
     @ (if tracking_number p \<noteq> (if nt \<noteq> [] then Some nt else None)
        then [\<lparr>log_pedido = ped_id p,
               log_action = TrackingActualizado (tracking_number p)
                              (if nt \<noteq> [] then Some nt else None),
               log_note = []\<rparr>]
        else [])
     @ (if estado p \<noteq> ''realizado'' \<and> ne = ''realizado''
        then [\<lparr>log_pedido = ped_id p, log_action = StockDescontado, log_note = []\<rparr>]
        else [])"

subsection \<open>Example data\<close>

text \<open>
  One product with the variant (M, Rojo) in stock 5 times, and the pending order 1 with
  one line of 2 units of it.
\<close>

definition ejemplo_pedido :: Pedido where
  "ejemplo_pedido =
     \<lparr>ped_id = 1, buyer_name = ''Ana'', buyer_dni = ''123'', localidad = ''Salta'',
      estado = ''pendiente'', tracking_number = None, fecha = 1\<rparr>"

definition ejemplo_db :: db where
  "ejemplo_db =
     \<lparr>productos = [\<lparr>prod_id = 1, precio = 1000\<rparr>],
      talles = [\<lparr>tp_id = 1, tp_producto = 1, tp_talle = ''M''\<rparr>],
      colores = [\<lparr>cs_id = 1, cs_talle_producto = 1, cs_color = ''Rojo'', cs_stock = 5\<rparr>],
      pedidos = [ejemplo_pedido],
      items = [\<lparr>it_pedido = 1, it_producto = 1, it_talle = ''M'', it_color = ''rojo'',
                it_cantidad = 2, precio_unitario = 1000\<rparr>],
      logs = []\<rparr>"

text \<open>A POST of the panel form with the two fields \<open>estado\<close> and \<open>tracking_number\<close>.\<close>

definition post_estado :: "string \<Rightarrow> string \<Rightarrow> request" where
  "post_estado e t =
     \<lparr>req_method = POST, req_GET = Map.empty,
      req_POST = [''estado'' \<mapsto> e, ''tracking_number'' \<mapsto> t]\<rparr>"

definition ejemplo_ida_y_vuelta :: "update_op list" where
  "ejemplo_ida_y_vuelta =
     [PanelRequest (post_estado ''realizado'' ''T1''),
      PanelRequest (post_estado ''pendiente'' []),
      PanelRequest (post_estado ''realizado'' ''T1'')]"

definition ejemplo_reenvio :: "update_op list" where
  "ejemplo_reenvio =
     [PanelRequest (post_estado ''realizado'' ''T1''),
      PanelRequest (post_estado ''realizado'' ''T2''),
      AdminChange (ejemplo_pedido\<lparr>estado := ''realizado'', tracking_number := Some ''T3''\<rparr>)]"


definition ejemplo_cart :: cart where
  "ejemplo_cart = [(''1:M:Rojo'', 7)]"



text \<open>
  The live stock of the variant a cart key names, whether the view can read the key and
  find its product, and what the view establishes for a line it renders.
\<close>

definition key_stock :: "db \<Rightarrow> string \<Rightarrow> int" where
  "key_stock d key =
     (case split_colon key of
        [pid, talle, color] \<Rightarrow>
          (case parse_nat pid of None \<Rightarrow> 0 | Some n \<Rightarrow> variant_stock d n talle color)
      | _ \<Rightarrow> 0)"

definition line_ok :: "db \<Rightarrow> cart \<Rightarrow> cart_line \<Rightarrow> bool" where
  "line_ok d raw l =
     (line_max l = key_stock d (line_key l)
      \<and> 0 < line_max l
      \<and> line_cantidad l \<le> line_max l
      \<and> line_subtotal l = precio (line_producto l) * line_cantidad l
      \<and> map_of raw (line_key l) = Some (line_cantidad l))"

definition key_known :: "db \<Rightarrow> string \<Rightarrow> bool" where
  "key_known d key =
     (case split_colon key of
        [pid, talle, color] \<Rightarrow>
          (case parse_nat pid of None \<Rightarrow> False | Some n \<Rightarrow> get_producto d n \<noteq> None)
      | _ \<Rightarrow> False)"

section \<open>Lemmas about the model\<close>

lemma find_map_stable:
  assumes "\<And>x. P (f x) = P x"
  shows "find P (map f xs) = map_option f (find P xs)"
  using assms by (induction xs) auto

lemma descontar_item_alt:
  "descontar_item it d =
     (case matching_stock d it of
        None \<Rightarrow> d
      | Some cs \<Rightarrow> save_stock (cs\<lparr>cs_stock := floor_sub (cs_stock cs) (it_cantidad it)\<rparr>) d)"
  by (simp add: descontar_item_def matching_stock_def floor_sub_def Let_def split: option.splits)

lemma matching_stock_cong:
  "talles d' = talles d \<Longrightarrow> colores d' = colores d \<Longrightarrow> matching_stock d' it = matching_stock d it"
  by (auto simp: matching_stock_def get_talle_def first_color_def split: option.splits)

lemma save_stock_frame [simp]:
  "talles (save_stock cs d) = talles d"
  "items (save_stock cs d) = items d"
  "pedidos (save_stock cs d) = pedidos d"
  "logs (save_stock cs d) = logs d"
  "productos (save_stock cs d) = productos d"
  by (simp_all add: save_stock_def)

lemma descontar_item_frame [simp]:
  "talles (descontar_item it d) = talles d"
  "items (descontar_item it d) = items d"
  "pedidos (descontar_item it d) = pedidos d"
  "logs (descontar_item it d) = logs d"
  "productos (descontar_item it d) = productos d"
  by (simp_all add: descontar_item_alt split: option.splits)




lemma descontar_item_ids [simp]:
  "map cs_id (colores (descontar_item it d)) = map cs_id (colores d)"
  by (auto simp: descontar_item_alt save_stock_def split: option.splits)

lemma matching_id_save_stock:
  "map_option cs_id (matching_stock (save_stock cs d) it) = map_option cs_id (matching_stock d it)"
proof -
  let ?f = "\<lambda>r. if cs_id r = cs_id cs then r\<lparr>cs_stock := cs_stock cs\<rparr> else r"
  have fc: "first_color (save_stock cs d) tp c = map_option ?f (first_color d tp c)" for tp c
    unfolding first_color_def save_stock_def
    by (simp add: find_map_stable [where f = ?f])
  have id: "map_option cs_id (map_option ?f x) = map_option cs_id x" for x
    by (cases x) auto
  show ?thesis
  proof (cases "get_talle d (it_producto it) (it_talle it)")
    case None
    then show ?thesis by (simp add: matching_stock_def get_talle_def)
  next
    case (Some tp)
    then have "matching_stock (save_stock cs d) it = map_option ?f (matching_stock d it)"
      by (simp add: matching_stock_def get_talle_def fc)
    then show ?thesis by (simp only: id)
  qed
qed

lemma matching_id_descontar_item:
  "map_option cs_id (matching_stock (descontar_item it d) it') = map_option cs_id (matching_stock d it')"
proof (cases "matching_stock d it")
  case None
  then show ?thesis by (simp add: descontar_item_alt)
next
  case (Some cs)
  then show ?thesis by (simp only: descontar_item_alt option.case matching_id_save_stock)
qed

lemma line_hits_descontar_item [simp]:
  "line_hits (descontar_item it d) r it' = line_hits d r it'"
  unfolding line_hits_def by (simp only: matching_id_descontar_item)

lemma line_hits_stock [simp]: "line_hits d (r\<lparr>cs_stock := s\<rparr>) = line_hits d r"
  by (simp add: line_hits_def fun_eq_iff)


lemma descontar_item_colores_cong:
  "talles d' = talles d \<Longrightarrow> colores d' = colores d \<Longrightarrow>
   colores (descontar_item it d') = colores (descontar_item it d)"
  by (simp add: descontar_item_alt matching_stock_cong [of d' d] save_stock_def split: option.splits)

lemma fold_descontar_frame [simp]:
  "talles (fold descontar_item its d) = talles d"
  "items (fold descontar_item its d) = items d"
  "pedidos (fold descontar_item its d) = pedidos d"
  "logs (fold descontar_item its d) = logs d"
  "productos (fold descontar_item its d) = productos d"
  by (induction its arbitrary: d) simp_all

lemma fold_descontar_colores_cong:
  "talles d' = talles d \<Longrightarrow> colores d' = colores d \<Longrightarrow>
   colores (fold descontar_item its d') = colores (fold descontar_item its d)"
proof (induction its arbitrary: d d')
  case Nil
  then show ?case by simp
next
  case (Cons it its)
  have "colores (fold descontar_item its (descontar_item it d')) =
        colores (fold descontar_item its (descontar_item it d))"
    using Cons.prems by (intro Cons.IH descontar_item_colores_cong) simp_all
  then show ?case by simp
qed

lemma descontar_frame [simp]:
  "talles (descontar_stock_si_realizado pk d) = talles d"
  "items (descontar_stock_si_realizado pk d) = items d"
  "pedidos (descontar_stock_si_realizado pk d) = pedidos d"
  "logs (descontar_stock_si_realizado pk d) = logs d"
  "productos (descontar_stock_si_realizado pk d) = productos d"
  by (simp_all add: descontar_stock_si_realizado_def)

lemma descontar_colores_cong:
  "talles d' = talles d \<Longrightarrow> colores d' = colores d \<Longrightarrow> items d' = items d \<Longrightarrow>
   colores (descontar_stock_si_realizado pk d') = colores (descontar_stock_si_realizado pk d)"
  unfolding descontar_stock_si_realizado_def pedido_items_def
  by (simp add: fold_descontar_colores_cong [of d' d])

lemma save_pedido_frame [simp]:
  "talles (save_pedido p d) = talles d"
  "colores (save_pedido p d) = colores d"
  "items (save_pedido p d) = items d"
  "logs (save_pedido p d) = logs d"
  "productos (save_pedido p d) = productos d"
  by (simp_all add: save_pedido_def)

lemma add_log_frame [simp]:
  "talles (add_log pk a d) = talles d"
  "colores (add_log pk a d) = colores d"
  "items (add_log pk a d) = items d"
  "pedidos (add_log pk a d) = pedidos d"
  "productos (add_log pk a d) = productos d"
  "logs (add_log pk a d) = logs d @ [\<lparr>log_pedido = pk, log_action = a, log_note = []\<rparr>]"
  by (simp_all add: add_log_def)

lemma get_pedido_id: "get_pedido d pk = Some p \<Longrightarrow> ped_id p = pk"
  by (auto simp: get_pedido_def find_Some_iff)

lemma descontar_colores_save_pedido [simp]:
  "colores (descontar_stock_si_realizado pk (save_pedido p d)) =
   colores (descontar_stock_si_realizado pk d)"
  by (rule descontar_colores_cong) simp_all

lemma descontar_colores_add_log [simp]:
  "colores (descontar_stock_si_realizado pk (add_log k a d)) =
   colores (descontar_stock_si_realizado pk d)"
  by (rule descontar_colores_cong) simp_all

lemma run_order_writes:
  fixes p ne nt d
  defines "d' \<equiv> run_writes (order_writes p ne nt) d"
  shows "pedidos d' = pedidos (save_pedido (new_pedido p ne nt) d)"
    and "logs d' = logs d @ new_logs p ne nt"
    and "colores d' = (if estado p \<noteq> ''realizado'' \<and> ne = ''realizado''
                       then colores (descontar_stock_si_realizado (ped_id p) d) else colores d)"
    and "talles d' = talles d"
    and "items d' = items d"
    and "productos d' = productos d"
  unfolding d'_def
  by (simp_all add: order_writes_def new_pedido_def new_logs_def Let_def)



lemma get_pedido_save_pedido:
  "get_pedido d (ped_id q) = Some p \<Longrightarrow>
   get_pedido (save_pedido q d) (ped_id q) =
     Some (p\<lparr>estado := estado q, tracking_number := tracking_number q\<rparr>)"
proof -
  let ?f = "\<lambda>r. if ped_id r = ped_id q
                  then r\<lparr>estado := estado q, tracking_number := tracking_number q\<rparr> else r"
  assume a: "get_pedido d (ped_id q) = Some p"
  have "get_pedido (save_pedido q d) (ped_id q) = map_option ?f (get_pedido d (ped_id q))"
    unfolding get_pedido_def save_pedido_def
    by (simp add: find_map_stable [where f = ?f])
  with a show ?thesis by (simp add: get_pedido_id [OF a])
qed

lemma get_pedido_pedidos_cong: "pedidos d' = pedidos d \<Longrightarrow> get_pedido d' pk = get_pedido d pk"
  by (simp add: get_pedido_def)

lemma new_pedido_sel [simp]:
  "ped_id (new_pedido p ne nt) = ped_id p"
  "estado (new_pedido p ne nt) = ne"
  "tracking_number (new_pedido p ne nt) = (if nt \<noteq> [] then Some nt else None)"
  by (simp_all add: new_pedido_def)

lemma get_pedido_run_order_writes:
  assumes "get_pedido d pk = Some p"
  shows "get_pedido (run_writes (order_writes p ne nt) d) pk = Some (new_pedido p ne nt)"
proof -
  have pk: "ped_id p = pk" using assms by (rule get_pedido_id)
  have "get_pedido (run_writes (order_writes p ne nt) d) pk =
        get_pedido (save_pedido (new_pedido p ne nt) d) pk"
    by (rule get_pedido_pedidos_cong) (rule run_order_writes)
  also have "\<dots> = Some (p\<lparr>estado := ne,
                 tracking_number := (if nt \<noteq> [] then Some nt else None)\<rparr>)"
    using get_pedido_save_pedido [of d "new_pedido p ne nt" p] assms pk by simp
  finally show ?thesis by (simp add: new_pedido_def)
qed

lemma admin_order_detail_accepted:
  assumes "get_pedido d pk = Some p"
    and "req_method request = POST"
    and "ne = get_or (req_POST request) ''estado'' (estado p)"
    and "nt = strip (get_or (req_POST request) ''tracking_number'' [])"
    and "\<not> (ne = ''realizado'' \<and> nt = [])"
  shows "admin_order_detail request pk d =
           (Redirect (PanelOrderDetail pk) [(LvSuccess, PedidoActualizado)],
            run_writes (order_writes p ne nt) d)"
  using assms by (auto simp: admin_order_detail_def Let_def get_pedido_id)


lemma get_pedido_save_obj:
  "get_pedido d (ped_id obj) = Some prev \<Longrightarrow> get_pedido (save_obj obj d) (ped_id obj) = Some obj"
proof -
  let ?f = "\<lambda>r. if ped_id r = ped_id obj then obj else r"
  assume a: "get_pedido d (ped_id obj) = Some prev"
  have "get_pedido (save_obj obj d) (ped_id obj) = map_option ?f (get_pedido d (ped_id obj))"
    unfolding get_pedido_def save_obj_def
    by (simp add: find_map_stable [where f = ?f])
  with a show ?thesis by (simp add: get_pedido_id [OF a])
qed

lemma save_obj_frame [simp]:
  "talles (save_obj p d) = talles d"
  "colores (save_obj p d) = colores d"
  "items (save_obj p d) = items d"
  "logs (save_obj p d) = logs d"
  "productos (save_obj p d) = productos d"
  by (simp_all add: save_obj_def)

lemma descontar_colores_save_obj [simp]:
  "colores (descontar_stock_si_realizado pk (save_obj p d)) =
   colores (descontar_stock_si_realizado pk d)"
  by (rule descontar_colores_cong) simp_all

lemma add_log_get_pedido [simp]: "get_pedido (add_log k a d) pk = get_pedido d pk"
  by (simp add: get_pedido_def)

lemma descontar_get_pedido [simp]:
  "get_pedido (descontar_stock_si_realizado k d) pk = get_pedido d pk"
  by (simp add: get_pedido_def)

lemma save_model_change:
  assumes "get_pedido d (ped_id obj) = Some prev"
  shows "\<exists>d'. save_model obj True d = Inr d'
           \<and> talles d' = talles d \<and> items d' = items d
           \<and> get_pedido d' (ped_id obj) = Some obj
           \<and> colores d' = (if estado prev \<noteq> ''realizado'' \<and> estado obj = ''realizado''
                            then colores (descontar_stock_si_realizado (ped_id obj) d)
                            else colores d)"
  using assms get_pedido_save_obj [OF assms]
  by (simp add: save_model_def Let_def)

lemma panel_step:
  fixes request pk d
  defines "d' \<equiv> snd (admin_order_detail request pk d)"
  shows "talles d' = talles d \<and> items d' = items d
       \<and> colores d' = (if estado_of d pk \<noteq> Some ''realizado'' \<and> estado_of d' pk = Some ''realizado''
                        then colores (descontar_stock_si_realizado pk d) else colores d)"
proof (cases "get_pedido d pk")
  case None
  then show ?thesis by (simp add: d'_def admin_order_detail_def)
next
  case (Some p)
  define ne where "ne = get_or (req_POST request) ''estado'' (estado p)"
  define nt where "nt = strip (get_or (req_POST request) ''tracking_number'' [])"
  have pk: "ped_id p = pk" using Some by (rule get_pedido_id)
  show ?thesis
  proof (cases "req_method request = POST \<and> \<not> (ne = ''realizado'' \<and> nt = [])")
    case True
    then have "d' = run_writes (order_writes p ne nt) d"
      unfolding d'_def
      by (simp add: admin_order_detail_accepted [OF Some _ ne_def nt_def])
    then show ?thesis
      using Some pk
      by (simp add: run_order_writes estado_of_def get_pedido_run_order_writes [OF Some])
  next
    case False
    then have "d' = d"
      unfolding d'_def
      by (auto simp: admin_order_detail_def Some Let_def ne_def nt_def)
    then show ?thesis by simp
  qed
qed

lemma admin_step:
  fixes pk cleaned d
  defines "d' \<equiv> (case admin_change pk cleaned d of Inl e \<Rightarrow> d | Inr x \<Rightarrow> x)"
  shows "talles d' = talles d \<and> items d' = items d
       \<and> colores d' = (if estado_of d pk \<noteq> Some ''realizado'' \<and> estado_of d' pk = Some ''realizado''
                        then colores (descontar_stock_si_realizado pk d) else colores d)"
proof (cases "PedidoForm_clean (cleaned\<lparr>ped_id := pk\<rparr>)")
  case (Inl e)
  then have "d' = d" by (simp add: d'_def admin_change_def)
  then show ?thesis by simp
next
  case (Inr obj)
  then have obj: "obj = cleaned\<lparr>ped_id := pk\<rparr>"
    by (simp add: PedidoForm_clean_def split: if_splits)
  then have pk: "ped_id obj = pk" by simp
  show ?thesis
  proof (cases "get_pedido d pk")
    case None
    then have "d' = d" using Inr pk by (simp add: d'_def admin_change_def save_model_def)
    then show ?thesis by simp
  next
    case (Some prev)
    from save_model_change [where d = d and obj = obj and prev = prev] Some pk
    obtain x where x: "save_model obj True d = Inr x" "talles x = talles d" "items x = items d"
      "get_pedido x pk = Some obj"
      "colores x = (if estado prev \<noteq> ''realizado'' \<and> estado obj = ''realizado''
                    then colores (descontar_stock_si_realizado pk d) else colores d)"
      by auto
    have "d' = x" using Inr x(1) by (simp add: d'_def admin_change_def)
    then show ?thesis using x Some by (simp add: estado_of_def)
  qed
qed

lemma apply_op_step:
  "talles (apply_op pk op d) = talles d \<and> items (apply_op pk op d) = items d
   \<and> colores (apply_op pk op d) =
       (if estado_of d pk \<noteq> Some ''realizado'' \<and> estado_of (apply_op pk op d) pk = Some ''realizado''
        then colores (descontar_stock_si_realizado pk d) else colores d)"
proof (cases op)
  case (PanelRequest request)
  then show ?thesis using panel_step [where request = request and pk = pk and d = d] by (simp add: apply_op_def)
next
  case (AdminChange cleaned)
  then show ?thesis using admin_step [where cleaned = cleaned and pk = pk and d = d] by (simp add: apply_op_def)
qed

lemma run_ops_at_most_once:
  assumes "stays_realizado pk ops d"
    and "talles d = talles d0" and "items d = items d0"
    and "colores d = colores d0
         \<or> (estado_of d pk = Some ''realizado''
            \<and> colores d = colores (descontar_stock_si_realizado pk d0))"
  shows "colores (run_ops pk ops d) = colores d0
         \<or> colores (run_ops pk ops d) = colores (descontar_stock_si_realizado pk d0)"
  using assms
proof (induction ops arbitrary: d)
  case Nil
  then show ?case by auto
next
  case (Cons op ops)
  let ?d = "apply_op pk op d"
  have step: "talles ?d = talles d" "items ?d = items d"
    "colores ?d = (if estado_of d pk \<noteq> Some ''realizado'' \<and> estado_of ?d pk = Some ''realizado''
                   then colores (descontar_stock_si_realizado pk d) else colores d)"
    using apply_op_step [where pk = pk and op = op and d = d] by simp_all
  have stays: "estado_of d pk = Some ''realizado'' \<longrightarrow> estado_of ?d pk = Some ''realizado''"
    and rest: "stays_realizado pk ops ?d"
    using Cons.prems(1) by simp_all
  have same: "colores (descontar_stock_si_realizado pk d) = colores (descontar_stock_si_realizado pk d0)"
    if "colores d = colores d0"
    using Cons.prems(2,3) that by (intro descontar_colores_cong)
  have inv: "colores ?d = colores d0
         \<or> (estado_of ?d pk = Some ''realizado''
            \<and> colores ?d = colores (descontar_stock_si_realizado pk d0))"
    using Cons.prems(4) step(3) stays same by (auto split: if_splits)
  have "colores (run_ops pk ops ?d) = colores d0
         \<or> colores (run_ops pk ops ?d) = colores (descontar_stock_si_realizado pk d0)"
    using rest step(1,2) Cons.prems(2,3) inv by (intro Cons.IH) simp_all
  then show ?case by simp
qed

lemma resubmit_keeps_estado:
  assumes "estado_of d pk = Some ''realizado''" and "submits_realizado op"
  shows "estado_of (apply_op pk op d) pk = Some ''realizado''"
proof -
  from assms(1) obtain p where p: "get_pedido d pk = Some p" "estado p = ''realizado''"
    by (auto simp: estado_of_def)
  show ?thesis
  proof (cases op)
    case (PanelRequest request)
    define nt where "nt = strip (get_or (req_POST request) ''tracking_number'' [])"
    have ne: "''realizado'' = get_or (req_POST request) ''estado'' (estado p)"
      using assms(2) p(2) PanelRequest by (simp add: submits_realizado_def get_or_def)
    show ?thesis
    proof (cases "req_method request = POST \<and> nt \<noteq> []")
      case True
      then have "apply_op pk op d = run_writes (order_writes p ''realizado'' nt) d"
        using PanelRequest
        by (simp add: apply_op_def admin_order_detail_accepted [OF p(1) _ ne nt_def])
      then show ?thesis
        by (simp add: estado_of_def get_pedido_run_order_writes [OF p(1)])
    next
      case False
      then have "apply_op pk op d = d"
        using PanelRequest p(1) ne
        by (auto simp: apply_op_def admin_order_detail_def Let_def nt_def)
      then show ?thesis using assms(1) by simp
    qed
  next
    case (AdminChange cleaned)
    show ?thesis
    proof (cases "PedidoForm_clean (cleaned\<lparr>ped_id := pk\<rparr>)")
      case (Inl e)
      then have "apply_op pk op d = d" using AdminChange by (simp add: apply_op_def admin_change_def)
      then show ?thesis using assms(1) by simp
    next
      case (Inr obj)
      then have obj: "obj = cleaned\<lparr>ped_id := pk\<rparr>"
        by (simp add: PedidoForm_clean_def split: if_splits)
      have est: "estado obj = ''realizado''"
        using assms(2) AdminChange obj by (simp add: submits_realizado_def)
      from save_model_change [where d = d and obj = obj and prev = p] p(1) obj
      obtain x where x: "save_model obj True d = Inr x" "get_pedido x pk = Some obj"
        by auto
      have "apply_op pk op d = x"
        using AdminChange Inr x(1) by (simp add: apply_op_def admin_change_def)
      then show ?thesis using x(2) est by (simp add: estado_of_def)
    qed
  qed
qed

lemma run_ops_resubmit:
  assumes "estado_of d pk = Some ''realizado''" and "\<forall>op \<in> set ops. submits_realizado op"
  shows "colores (run_ops pk ops d) = colores d"
  using assms
proof (induction ops arbitrary: d)
  case Nil
  then show ?case by simp
next
  case (Cons op ops)
  have e: "estado_of (apply_op pk op d) pk = Some ''realizado''"
    using Cons.prems by (intro resubmit_keeps_estado) simp_all
  have c: "colores (apply_op pk op d) = colores d"
    using apply_op_step [where pk = pk and op = op and d = d] Cons.prems(1) by simp
  have "colores (run_ops pk ops (apply_op pk op d)) = colores (apply_op pk op d)"
    using e Cons.prems(2) by (intro Cons.IH) simp_all
  then show ?case using c by simp
qed








lemma cart_get_update [simp]: "cart_get (AList.update k v c) k = v"
  by (simp add: cart_get_def AList.update_conv')




lemma cart_loop_inv:
  assumes "cart_loop d es (raw, ls, tot, ch) = Inr (raw', ls', tot', ch')"
    and "distinct (map fst es)"
    and "\<forall>e \<in> set es. map_of raw (fst e) = Some (snd e)"
    and "\<forall>l \<in> set ls. line_ok d raw l \<and> line_key l \<notin> fst ` set es"
    and "tot = sum_list (map line_subtotal ls)"
  shows "(\<forall>l \<in> set ls'. line_ok d raw' l) \<and> tot' = sum_list (map line_subtotal ls')"
  using assms
proof (induction es arbitrary: raw ls tot ch)
  case Nil
  then show ?case by auto
next
  case (Cons e rest)
  obtain key qty where e: "e = (key, qty)" by (cases e)
  from Cons.prems(1) obtain pid talle color n producto where
    sp: "split_colon key = [pid, talle, color]" and pn: "parse_nat pid = Some n"
    and gp: "get_producto d n = Some producto"
    unfolding e by (auto split: list.splits option.splits)
  have ks: "key_stock d key = variant_stock d n talle color"
    by (simp add: key_stock_def sp pn)
  have others: "\<forall>x \<in> set rest. fst x \<noteq> key"
    using Cons.prems(2) e by auto
  have dist: "distinct (map fst rest)" using Cons.prems(2) by simp
  have here: "map_of raw key = Some qty" using Cons.prems(3) e by simp
  have old: "\<forall>l \<in> set ls. line_ok d raw l \<and> line_key l \<noteq> key \<and> line_key l \<notin> fst ` set rest"
    using Cons.prems(4) e by auto
  show ?case
  proof (cases "variant_stock d n talle color \<le> 0")
    case True
    have run: "cart_loop d rest (AList.delete key raw, ls, tot, True) = Inr (raw', ls', tot', ch')"
      using Cons.prems(1) True by (simp add: e sp pn gp)
    have b: "\<forall>x \<in> set rest. map_of (AList.delete key raw) (fst x) = Some (snd x)"
      using Cons.prems(3) others by (simp add: AList.delete_conv')
    have c: "\<forall>l \<in> set ls. line_ok d (AList.delete key raw) l \<and> line_key l \<notin> fst ` set rest"
      using old by (auto simp: line_ok_def AList.delete_conv')
    show ?thesis by (rule Cons.IH [OF run dist b c Cons.prems(5)])
  next
    case False
    let ?max = "variant_stock d n talle color"
    let ?q = "if qty > ?max then ?max else qty"
    let ?raw = "if qty > ?max then AList.update key ?q raw else raw"
    let ?l = "\<lparr>line_key = key, line_producto = producto, line_talle = talle, line_color = color,
              line_cantidad = ?q, line_subtotal = precio producto * ?q, line_max = ?max\<rparr>"
    have run: "cart_loop d rest (?raw, ls @ [?l], tot + precio producto * ?q, ch \<or> qty > ?max)
                 = Inr (raw', ls', tot', ch')"
      using Cons.prems(1) False by (simp add: e sp pn gp Let_def)
    have b: "\<forall>x \<in> set rest. map_of ?raw (fst x) = Some (snd x)"
      using Cons.prems(3) others by (simp add: AList.update_conv')
    have stored: "map_of ?raw key = Some ?q"
      using here by (simp add: AList.update_conv')
    have newl: "line_ok d ?raw ?l \<and> line_key ?l \<notin> fst ` set rest"
      using False stored others by (auto simp: line_ok_def ks)
    have oldl: "\<forall>l \<in> set ls. line_ok d ?raw l \<and> line_key l \<notin> fst ` set rest"
      using old by (auto simp: line_ok_def AList.update_conv')
    have c: "\<forall>l \<in> set (ls @ [?l]). line_ok d ?raw l \<and> line_key l \<notin> fst ` set rest"
      using newl oldl by simp
    have t: "tot + precio producto * ?q = sum_list (map line_subtotal (ls @ [?l]))"
      using Cons.prems(5) by simp
    show ?thesis by (rule Cons.IH [OF run dist b c t])
  qed
qed

lemma cart_loop_total:
  assumes "\<forall>e \<in> set es. key_known d (fst e)"
  shows "\<exists>r. cart_loop d es st = Inr r"
  using assms
proof (induction es arbitrary: st)
  case Nil
  then show ?case by (simp del: split_paired_Ex)
next
  case (Cons e rest)
  obtain key qty where e: "e = (key, qty)" by (cases e)
  obtain raw ls tot ch where st: "st = (raw, ls, tot, ch)" by (cases st) auto
  from Cons.prems e obtain pid talle color n producto where
    sp: "split_colon key = [pid, talle, color]" and pn: "parse_nat pid = Some n"
    and gp: "get_producto d n = Some producto"
    by (auto simp: key_known_def split: list.splits option.splits)
  have rest: "\<forall>x \<in> set rest. key_known d (fst x)" using Cons.prems by simp
  show ?case
    using Cons.IH [OF rest] by (simp add: e st sp pn gp Let_def)
qed

lemma cart_loop_purge_flag:
  assumes "cart_loop d es (raw, ls, tot, ch) = Inr (raw', ls', tot', ch')"
    and "distinct (map fst es)"
    and "\<forall>e \<in> set es. map_of raw (fst e) = Some (snd e)"
    and "\<forall>k. k \<notin> fst ` set es \<longrightarrow> key_stock d k \<le> 0 \<longrightarrow> map_of raw k = None"
  shows "(\<forall>k. key_stock d k \<le> 0 \<longrightarrow> map_of raw' k = None)
       \<and> (ch' \<longleftrightarrow> ch \<or> (\<exists>e \<in> set es. key_stock d (fst e) \<le> 0 \<or> key_stock d (fst e) < snd e))"
  using assms
proof (induction es arbitrary: raw ls tot ch)
  case Nil
  then show ?case by auto
next
  case (Cons e rest)
  obtain key qty where e: "e = (key, qty)" by (cases e)
  from Cons.prems(1) obtain pid talle color n producto where
    sp: "split_colon key = [pid, talle, color]" and pn: "parse_nat pid = Some n"
    and gp: "get_producto d n = Some producto"
    unfolding e by (auto split: list.splits option.splits)
  have ks: "key_stock d key = variant_stock d n talle color"
    by (simp add: key_stock_def sp pn)
  have others: "\<forall>x \<in> set rest. fst x \<noteq> key"
    using Cons.prems(2) e by auto
  have dist: "distinct (map fst rest)" using Cons.prems(2) by simp
  have p4: "map_of raw k = None" if "k \<noteq> key" "k \<notin> fst ` set rest" "key_stock d k \<le> 0" for k
    using Cons.prems(4) that e by auto
  show ?case
  proof (cases "variant_stock d n talle color \<le> 0")
    case True
    have run: "cart_loop d rest (AList.delete key raw, ls, tot, True) = Inr (raw', ls', tot', ch')"
      using Cons.prems(1) True by (simp add: e sp pn gp)
    have b: "\<forall>x \<in> set rest. map_of (AList.delete key raw) (fst x) = Some (snd x)"
      using Cons.prems(3) others by (simp add: AList.delete_conv')
    have c: "\<forall>k. k \<notin> fst ` set rest \<longrightarrow> key_stock d k \<le> 0
                 \<longrightarrow> map_of (AList.delete key raw) k = None"
      using p4 by (simp add: AList.delete_conv')
    show ?thesis
      using Cons.IH [OF run dist b c] True by (auto simp: e ks)
  next
    case False
    let ?max = "variant_stock d n talle color"
    let ?q = "if qty > ?max then ?max else qty"
    let ?raw = "if qty > ?max then AList.update key ?q raw else raw"
    let ?l = "\<lparr>line_key = key, line_producto = producto, line_talle = talle, line_color = color,
              line_cantidad = ?q, line_subtotal = precio producto * ?q, line_max = ?max\<rparr>"
    have run: "cart_loop d rest (?raw, ls @ [?l], tot + precio producto * ?q, ch \<or> qty > ?max)
                 = Inr (raw', ls', tot', ch')"
      using Cons.prems(1) False by (simp add: e sp pn gp Let_def)
    have b: "\<forall>x \<in> set rest. map_of ?raw (fst x) = Some (snd x)"
      using Cons.prems(3) others by (simp add: AList.update_conv')
    have c: "\<forall>k. k \<notin> fst ` set rest \<longrightarrow> key_stock d k \<le> 0 \<longrightarrow> map_of ?raw k = None"
    proof (intro allI impI)
      fix k assume k: "k \<notin> fst ` set rest" "key_stock d k \<le> 0"
      then have "k \<noteq> key" using False ks by auto
      then show "map_of ?raw k = None"
        using p4 k by (simp add: AList.update_conv')
    qed
    show ?thesis
      using Cons.IH [OF run dist b c] False by (auto simp: e ks)
  qed
qed

subsection \<open>The cart view re-validates the session cart\<close>

text \<open>
  When the keys of the session cart are well formed and their products exist, the view
  \<^verbatim>\<open>cart\<close> renders: every line it shows has a quantity of at most the live stock of
  its variant, which is positive, and the session afterwards stores that quantity; the
  total is the sum of the subtotals; every key whose live stock is 0 is gone from the
  session; and \<^verbatim>\<open>session_changed\<close> is set exactly when an entry was capped or purged.
\<close>

lemma cart_view_reconciles_with_stock:
  assumes "distinct (map fst raw)"
    and "\<forall>e \<in> set raw. key_known d (fst e)"
  shows "\<exists>ls tot raw' changed.
           cart_view raw d = (Render (ls, tot, sum_list (map line_cantidad ls)), raw', changed)
         \<and> (\<forall>l \<in> set ls. line_max l = key_stock d (line_key l)
                          \<and> 0 < line_max l
                          \<and> line_cantidad l \<le> line_max l
                          \<and> line_subtotal l = precio (line_producto l) * line_cantidad l
                          \<and> map_of raw' (line_key l) = Some (line_cantidad l))
         \<and> tot = sum_list (map line_subtotal ls)
         \<and> (\<forall>k. key_stock d k \<le> 0 \<longrightarrow> map_of raw' k = None)
         \<and> (changed \<longleftrightarrow> (\<exists>e \<in> set raw. key_stock d (fst e) \<le> 0 \<or> key_stock d (fst e) < snd e))"
proof -
  obtain raw' ls tot changed where
    run: "cart_loop d raw (raw, [], 0, False) = Inr (raw', ls, tot, changed)"
    using cart_loop_total [OF assms(2), of "(raw, [], 0, False)"] by (metis prod_cases4)
  have stored: "\<forall>e \<in> set raw. map_of raw (fst e) = Some (snd e)"
    using assms(1) by auto
  have absent: "\<forall>k. k \<notin> fst ` set raw \<longrightarrow> key_stock d k \<le> 0 \<longrightarrow> map_of raw k = None"
    by (simp add: map_of_eq_None_iff)
  have a: "(\<forall>l \<in> set ls. line_ok d raw' l) \<and> tot = sum_list (map line_subtotal ls)"
    using cart_loop_inv [OF run assms(1) stored] by simp
  have b: "(\<forall>k. key_stock d k \<le> 0 \<longrightarrow> map_of raw' k = None)
       \<and> (changed \<longleftrightarrow> (\<exists>e \<in> set raw. key_stock d (fst e) \<le> 0 \<or> key_stock d (fst e) < snd e))"
    using cart_loop_purge_flag [OF run assms(1) stored absent] by simp
  have v: "cart_view raw d = (Render (ls, tot, sum_list (map line_cantidad ls)), raw', changed)"
    by (simp add: cart_view_def run)
  show ?thesis
    using v a b unfolding line_ok_def by blast
qed

lemma cart_view_reconciles_with_stock_example:
  "distinct (map fst ejemplo_cart)
   \<and> list_all (\<lambda>e. key_known ejemplo_db (fst e)) ejemplo_cart
   \<and> key_stock ejemplo_db ''1:M:Rojo'' = 5
   \<and> (\<exists>ls tot raw' changed.
         cart_view ejemplo_cart ejemplo_db
           = (Render (ls, tot, sum_list (map line_cantidad ls)), raw', changed)
       \<and> list_all (\<lambda>l. line_cantidad l \<le> line_max l
                        \<and> map_of raw' (line_key l) = Some (line_cantidad l)) ls
       \<and> tot = sum_list (map line_subtotal ls)
       \<and> changed)"
proof -
  have h1: "distinct (map fst ejemplo_cart)" by code_simp
  have h2: "list_all (\<lambda>e. key_known ejemplo_db (fst e)) ejemplo_cart" by code_simp
  have h2': "\<forall>e \<in> set ejemplo_cart. key_known ejemplo_db (fst e)"
    using h2 by (simp add: list_all_iff)
  have k: "key_stock ejemplo_db ''1:M:Rojo'' = 5" by code_simp
  have ex: "\<exists>e \<in> set ejemplo_cart. key_stock ejemplo_db (fst e) \<le> 0
                \<or> key_stock ejemplo_db (fst e) < snd e"
    using k by (simp add: ejemplo_cart_def)
  show ?thesis
    using cart_view_reconciles_with_stock [OF h1 h2'] h1 h2 k ex
    unfolding list_all_iff by blast
qed

section \<open>The claims\<close>





text \<open>
  C2, as the code has it. The claim says that over every sequence of status updates the
  stock of an order's lines is decremented at most once. The guard of both update paths
  looks at the previous state only, so an order taken out of \<^verbatim>\<open>'realizado'\<close> and
  fulfilled again is decremented again: in the example the stock goes from 5 to 1 for a
  line of 2 units, with two "stock decremented" entries.
\<close>

theorem stock_decremented_twice_counterexample:
  "map cs_stock (colores ejemplo_db) = [5]
   \<and> map cs_stock (colores (descontar_stock_si_realizado 1 ejemplo_db)) = [3]
   \<and> map cs_stock (colores (run_ops 1 ejemplo_ida_y_vuelta ejemplo_db)) = [1]
   \<and> length (filter is_stock_log (logs (run_ops 1 ejemplo_ida_y_vuelta ejemplo_db))) = 2
   \<and> \<not> (colores (run_ops 1 ejemplo_ida_y_vuelta ejemplo_db) = colores ejemplo_db
          \<or> colores (run_ops 1 ejemplo_ida_y_vuelta ejemplo_db)
              = colores (descontar_stock_si_realizado 1 ejemplo_db))"
  by code_simp

text \<open>
  C2, amended. A status update (a request to the panel or a change in the admin)
  decrements the stock exactly when the state before it is not \<^verbatim>\<open>'realizado'\<close> and the
  state after it is. Over a sequence of updates that never takes the order out of
  \<^verbatim>\<open>'realizado'\<close> the stock is decremented at most once, and submitting
  \<^verbatim>\<open>'realizado'\<close> again for an order already in that state, any number of times,
  decrements nothing.
\<close>

theorem stock_decrement_only_on_move_into_realizado:
  "colores (apply_op pk op d) =
     (if estado_of d pk \<noteq> Some ''realizado'' \<and> estado_of (apply_op pk op d) pk = Some ''realizado''
      then colores (descontar_stock_si_realizado pk d) else colores d)
   \<and> (stays_realizado pk ops d
      \<longrightarrow> colores (run_ops pk ops d) = colores d
          \<or> colores (run_ops pk ops d) = colores (descontar_stock_si_realizado pk d))
   \<and> (estado_of d pk = Some ''realizado'' \<and> (\<forall>op \<in> set ops. submits_realizado op)
      \<longrightarrow> colores (run_ops pk ops d) = colores d)"
  using apply_op_step [where pk = pk and op = op and d = d]
    run_ops_at_most_once [where pk = pk and ops = ops and d = d and ?d0.0 = d]
    run_ops_resubmit [where pk = pk and ops = ops and d = d]
  by blast

theorem stock_decrement_only_on_move_into_realizado_witness:
  "stays_realizado 1 ejemplo_reenvio ejemplo_db
   \<and> map cs_stock (colores (run_ops 1 ejemplo_reenvio ejemplo_db)) = [3]
   \<and> (colores (run_ops 1 ejemplo_reenvio ejemplo_db) = colores ejemplo_db
      \<or> colores (run_ops 1 ejemplo_reenvio ejemplo_db)
          = colores (descontar_stock_si_realizado 1 ejemplo_db))
   \<and> estado_of (run_ops 1 (take 1 ejemplo_reenvio) ejemplo_db) 1 = Some ''realizado''
   \<and> list_all submits_realizado (drop 1 ejemplo_reenvio)
   \<and> colores (run_ops 1 (drop 1 ejemplo_reenvio) (run_ops 1 (take 1 ejemplo_reenvio) ejemplo_db))
       = colores (run_ops 1 (take 1 ejemplo_reenvio) ejemplo_db)"
proof -
  let ?d1 = "run_ops 1 (take 1 ejemplo_reenvio) ejemplo_db"
  have h1: "stays_realizado 1 ejemplo_reenvio ejemplo_db" by code_simp
  have h2: "estado_of ?d1 1 = Some ''realizado''" by code_simp
  have h3: "list_all submits_realizado (drop 1 ejemplo_reenvio)" by code_simp
  have h3': "\<forall>op \<in> set (drop 1 ejemplo_reenvio). submits_realizado op"
    using h3 by (simp add: list_all_iff)
  have v: "map cs_stock (colores (run_ops 1 ejemplo_reenvio ejemplo_db)) = [3]" by code_simp
  show ?thesis
    using stock_decrement_only_on_move_into_realizado
            [where pk = 1 and d = ejemplo_db and ops = ejemplo_reenvio]
          stock_decrement_only_on_move_into_realizado
            [where pk = 1 and d = ?d1 and ops = "drop 1 ejemplo_reenvio"]
          h1 h2 h3 h3' v
    by blast
qed






text \<open>
  C5, at the failing input. The claim says that every operation that reads the cart
  re-validates each entry against the live stock. With 7 units stored of a variant whose
  stock is 5, the cart view caps the entry to 5 and writes the session back, but step 1
  of \<^verbatim>\<open>checkout\<close> reads the same session and keeps 7, and the order line its POST
  branch creates has \<^verbatim>\<open>cantidad\<close> 7.
\<close>

theorem checkout_keeps_quantity_above_stock:
  "variant_stock ejemplo_db 1 ''M'' ''Rojo'' = 5
   \<and> cart_view ejemplo_cart ejemplo_db =
       (Render ([\<lparr>line_key = ''1:M:Rojo'', line_producto = \<lparr>prod_id = 1, precio = 1000\<rparr>,
                  line_talle = ''M'', line_color = ''Rojo'', line_cantidad = 5,
                  line_subtotal = 5000, line_max = 5\<rparr>], 5000, 5),
        [(''1:M:Rojo'', 5)], True)
   \<and> checkout_items ejemplo_db ejemplo_cart ([], 0) =
       Inr ([\<lparr>ci_producto = \<lparr>prod_id = 1, precio = 1000\<rparr>, ci_talle = ''M'',
              ci_color = ''Rojo'', ci_qty = 7, ci_subtotal = 7000\<rparr>], 7000)
   \<and> checkout_lines 2
        [\<lparr>ci_producto = \<lparr>prod_id = 1, precio = 1000\<rparr>, ci_talle = ''M'',
          ci_color = ''Rojo'', ci_qty = 7, ci_subtotal = 7000\<rparr>] =
       [\<lparr>it_pedido = 2, it_producto = 1, it_talle = ''M'', it_color = ''Rojo'',
         it_cantidad = 7, precio_unitario = 1000\<rparr>]"
  by code_simp




text \<open>
  C7, at the failing input. The claim says that \<^verbatim>\<open>calculate_shipping\<close> either returns a
  cost or raises \<^verbatim>\<open>ShippingError\<close>, and never returns \<^verbatim>\<open>None\<close>. When the request
  itself fails, or the answer has an error status such as 401 or 503, the function
  returns \<^verbatim>\<open>None\<close>; only a missing cost field raises \<^verbatim>\<open>ShippingError\<close>.
\<close>

theorem calculate_shipping_returns_None_on_request_error:
  "calculate_shipping j PostRaised = Returned None
   \<and> calculate_shipping j (Response 401 b) = Returned None
   \<and> calculate_shipping j (Response 503 b) = Returned None
   \<and> calculate_shipping j (Response 200 (JsonObject CostMissing)) = Raise ShippingError
   \<and> calculate_shipping j (Response 200 (JsonObject (CostDecimal 250000))) = Returned (Some 250000)"
  by (simp add: calculate_shipping_def)






text \<open>
  C10, at the failing input. The claim says that \<^verbatim>\<open>admin_orders\<close> returns the matching
  orders for every filter and every query text. For a query that is not blank the view
  reads the name \<^verbatim>\<open>Q\<close>, which views.py never imports, and raises \<^verbatim>\<open>NameError\<close>;
  without a query the list is rendered.
\<close>

theorem admin_orders_search_raises_NameError:
  "admin_orders \<lparr>req_method = GET, req_GET = [''q'' \<mapsto> ''ana''], req_POST = Map.empty\<rparr> d
     = Raised NameError
   \<and> admin_orders \<lparr>req_method = GET, req_GET = [''estado'' \<mapsto> ''pendiente''],
                   req_POST = Map.empty\<rparr> ejemplo_db
     = Render ([ejemplo_pedido], ''pendiente'', [])"
proof -
  have "strip ''ana'' = ''ana''" by code_simp
  then have a: "admin_orders \<lparr>req_method = GET, req_GET = [''q'' \<mapsto> ''ana''],
                                req_POST = Map.empty\<rparr> d = Raised NameError"
    by (simp add: admin_orders_def views_globals_def get_or_def Let_def)
  have b: "admin_orders \<lparr>req_method = GET, req_GET = [''estado'' \<mapsto> ''pendiente''],
                   req_POST = Map.empty\<rparr> ejemplo_db
     = Render ([ejemplo_pedido], ''pendiente'', [])"
    by code_simp
  show ?thesis using a b by simp
qed

end
